theory Spec2Isabelle
  imports Main
begin

section \<open>Strings and numbers of the JavaScript runtime\<close>

text \<open>
  The two HTTP client wrappers (\<^verbatim>\<open>src/utils/api.js\<close>, \<^verbatim>\<open>src/utils/request.js\<close>) store
  and compare strings and millisecond timestamps. A JavaScript string is modelled by the
  list of its UTF-8 bytes (\<^typ>\<open>string\<close>); a timestamp and every other number the code
  inspects (HTTP status, the sentinel 200) by an \<^typ>\<open>int\<close>. \<^verbatim>\<open>NaN\<close> is the value
  \<^term>\<open>None\<close> of \<^typ>\<open>int option\<close>. Time values of \<^verbatim>\<open>Date\<close> stay below \<open>2^53\<close>, where
  JavaScript's doubles are exact integers and are printed in decimal; \<^verbatim>\<open>parseInt\<close> is
  modelled with its exact integer result, which JavaScript rounds to a double only from
  \<open>2^53\<close> on, beyond every time value it is compared with.
\<close>

subsection \<open>\<^verbatim>\<open>Number.prototype.toString\<close> on integers\<close>

definition digit_char :: "nat \<Rightarrow> char" where
  "digit_char d = ''0123456789'' ! d"

function digits_of :: "nat \<Rightarrow> string" where
  "digits_of n =
     (if n < 10 then [digit_char n] else digits_of (n div 10) @ [digit_char (n mod 10)])"
  by pat_completeness auto
termination
  by (relation "measure id") auto

declare digits_of.simps [simp del]

definition number_toString :: "int \<Rightarrow> string" where
  "number_toString i = (if i < 0 then CHR ''-'' # digits_of (nat (- i)) else digits_of (nat i))"

subsection \<open>\<^verbatim>\<open>parseInt(string)\<close> with no radix argument\<close>

text \<open>
  \<^verbatim>\<open>parseInt\<close> skips leading white space, reads an optional sign, switches to radix 16
  after a \<^verbatim>\<open>0x\<close>/\<^verbatim>\<open>0X\<close> prefix, and converts the longest prefix of digits of the
  radix; with no digit the result is \<^verbatim>\<open>NaN\<close>. \<^term>\<open>white_space\<close> lists the UTF-8
  encodings of the characters that ECMAScript counts as white space or line terminator.
\<close>

definition digit_value :: "char \<Rightarrow> nat option" where
  "digit_value c =
     (let k = (of_char c :: nat) in
      if 48 \<le> k \<and> k \<le> 57 then Some (k - 48)
      else if 97 \<le> k \<and> k \<le> 122 then Some (k - 87)
      else if 65 \<le> k \<and> k \<le> 90 then Some (k - 55)
      else None)"

definition radix_digit :: "nat \<Rightarrow> char \<Rightarrow> nat option" where
  "radix_digit R c =
     (case digit_value c of None \<Rightarrow> None | Some d \<Rightarrow> if d < R then Some d else None)"

fun parse_digits :: "nat \<Rightarrow> nat option \<Rightarrow> string \<Rightarrow> nat option" where
  "parse_digits R acc [] = acc"
| "parse_digits R acc (c # cs) =
     (case radix_digit R c of
        None \<Rightarrow> acc
      | Some d \<Rightarrow>
          parse_digits R (Some ((case acc of None \<Rightarrow> 0 | Some a \<Rightarrow> a) * R + d)) cs)"

definition white_space :: "string list" where
  "white_space =
     [[CHR 0x09], [CHR 0x0A], [CHR 0x0B], [CHR 0x0C], [CHR 0x0D], [CHR 0x20],
      [CHR 0xC2, CHR 0xA0], [CHR 0xE1, CHR 0x9A, CHR 0x80],
      [CHR 0xE2, CHR 0x80, CHR 0x80], [CHR 0xE2, CHR 0x80, CHR 0x81],
      [CHR 0xE2, CHR 0x80, CHR 0x82], [CHR 0xE2, CHR 0x80, CHR 0x83],
      [CHR 0xE2, CHR 0x80, CHR 0x84], [CHR 0xE2, CHR 0x80, CHR 0x85],
      [CHR 0xE2, CHR 0x80, CHR 0x86], [CHR 0xE2, CHR 0x80, CHR 0x87],
      [CHR 0xE2, CHR 0x80, CHR 0x88], [CHR 0xE2, CHR 0x80, CHR 0x89],
      [CHR 0xE2, CHR 0x80, CHR 0x8A], [CHR 0xE2, CHR 0x80, CHR 0xA8],
      [CHR 0xE2, CHR 0x80, CHR 0xA9], [CHR 0xE2, CHR 0x80, CHR 0xAF],
      [CHR 0xE2, CHR 0x81, CHR 0x9F], [CHR 0xE3, CHR 0x80, CHR 0x80],
      [CHR 0xEF, CHR 0xBB, CHR 0xBF]]"

definition leading_space :: "string \<Rightarrow> string option" where
  "leading_space s = find (\<lambda>w. take (length w) s = w) white_space"

function trim_start :: "string \<Rightarrow> string" where
  "trim_start s =
     (case leading_space s of None \<Rightarrow> s | Some w \<Rightarrow> trim_start (drop (length w) s))"
  by pat_completeness auto
termination
proof (relation "measure length")
  show "wf (measure length)" by simp
next
  fix s w :: string
  assume found: "leading_space s = Some w"
  then have mem: "w \<in> set white_space" and pre: "take (length w) s = w"
    by (auto simp: leading_space_def find_Some_iff)
  from mem have "w \<noteq> []" by (auto simp: white_space_def)
  moreover from arg_cong [OF pre, of length] have "length w \<le> length s" by simp
  ultimately have "length s - length w < length s" by (cases w) auto
  then show "(drop (length w) s, s) \<in> measure length" by simp
qed

declare trim_start.simps [simp del]

definition parseInt :: "string \<Rightarrow> int option" where
  "parseInt input =
     (let s = trim_start input;
          neg = (take 1 s = ''-'');
          s1 = (if take 1 s = ''-'' \<or> take 1 s = ''+'' then drop 1 s else s);
          hex = (take 2 s1 = ''0x'' \<or> take 2 s1 = ''0X'');
          R = (if hex then 16 else 10);
          s2 = (if hex then drop 2 s1 else s1)
      in case parse_digits R None s2 of
           None \<Rightarrow> None
         | Some n \<Rightarrow> Some (if neg then - int n else int n))"

section \<open>JavaScript values\<close>

text \<open>
  Response bodies are parsed JSON; rejection values are object literals or \<^verbatim>\<open>Error\<close>
  objects. \<^term>\<open>JError name message\<close> is an error object with the given \<^verbatim>\<open>name\<close> and
  \<^verbatim>\<open>message\<close>. An object is the list of its own properties; the first entry of a key
  is the one a property read returns. Numbers are integers: the wrappers test a number of
  a body only for truth and for equality with 200, where a fractional number behaves as
  any integer other than 0 and 200 does.
\<close>

datatype js =
    JUndefined
  | JNull
  | JBool bool
  | JNum int
  | JStr string
  | JArr "js list"
  | JObj "(string \<times> js) list"
  | JError string string

fun truthy :: "js \<Rightarrow> bool" where
  "truthy JUndefined = False"
| "truthy JNull = False"
| "truthy (JBool b) = b"
| "truthy (JNum n) = (n \<noteq> 0)"
| "truthy (JStr s) = (s \<noteq> [])"
| "truthy (JArr xs) = True"
| "truthy (JObj kvs) = True"
| "truthy (JError n m) = True"

text \<open>\<^verbatim>\<open>a || b\<close>\<close>

definition js_or :: "js \<Rightarrow> js \<Rightarrow> js" where
  "js_or a b = (if truthy a then a else b)"

fun nullish :: "js \<Rightarrow> bool" where
  "nullish JUndefined = True"
| "nullish JNull = True"
| "nullish (JBool b) = False"
| "nullish (JNum n) = False"
| "nullish (JStr s) = False"
| "nullish (JArr xs) = False"
| "nullish (JObj kvs) = False"
| "nullish (JError n m) = False"

text \<open>
  \<^verbatim>\<open>get_prop v k\<close> is the property read \<^verbatim>\<open>v.k\<close> on a value that is neither \<^verbatim>\<open>null\<close>
  nor \<^verbatim>\<open>undefined\<close>, for the keys the two wrappers read (\<^verbatim>\<open>code\<close>, \<^verbatim>\<open>success\<close>,
  \<^verbatim>\<open>data\<close>, \<^verbatim>\<open>message\<close>, \<^verbatim>\<open>token\<close>, \<^verbatim>\<open>account\<close>, \<^verbatim>\<open>password\<close>,
  \<^verbatim>\<open>loginType\<close>): none of them is inherited from a prototype, so primitives and arrays
  answer \<^verbatim>\<open>undefined\<close>. On \<^verbatim>\<open>null\<close> and \<^verbatim>\<open>undefined\<close> the read throws a
  \<^verbatim>\<open>TypeError\<close> (\<^verbatim>\<open>type_error\<close>, with the wording of V8); the optional chain
  \<^verbatim>\<open>v?.k\<close> (\<^verbatim>\<open>opt_prop\<close>) answers \<^verbatim>\<open>undefined\<close> instead.
\<close>

fun get_prop :: "js \<Rightarrow> string \<Rightarrow> js" where
  "get_prop (JObj kvs) k = (case map_of kvs k of None \<Rightarrow> JUndefined | Some v \<Rightarrow> v)"
| "get_prop (JError n m) k =
     (if k = ''message'' then JStr m else if k = ''name'' then JStr n else JUndefined)"
| "get_prop JUndefined k = JUndefined"
| "get_prop JNull k = JUndefined"
| "get_prop (JBool b) k = JUndefined"
| "get_prop (JNum n) k = JUndefined"
| "get_prop (JStr s) k = JUndefined"
| "get_prop (JArr xs) k = JUndefined"

definition opt_prop :: "js \<Rightarrow> string \<Rightarrow> js" where
  "opt_prop v k = (if nullish v then JUndefined else get_prop v k)"

definition type_error :: "js \<Rightarrow> string \<Rightarrow> js" where
  "type_error v k =
     JError ''TypeError''
       (''Cannot read properties of '' @ (if v = JNull then ''null'' else ''undefined'') @
        '' (reading '' @ [CHR 0x27] @ k @ [CHR 0x27] @ '')'')"

text \<open>
  \<^verbatim>\<open>String(v)\<close>, as the \<^verbatim>\<open>Error\<close> constructor and a template literal apply it. An
  object with an own \<^verbatim>\<open>toString\<close> property (never callable in parsed JSON) cannot be
  converted: the conversion throws, which is the result \<^term>\<open>None\<close>.
\<close>

fun join_comma :: "string list \<Rightarrow> string" where
  "join_comma [] = []"
| "join_comma [x] = x"
| "join_comma (x # y # ys) = x @ '','' @ join_comma (y # ys)"

fun to_string :: "js \<Rightarrow> string option" where
  "to_string JUndefined = Some ''undefined''"
| "to_string JNull = Some ''null''"
| "to_string (JBool b) = Some (if b then ''true'' else ''false'')"
| "to_string (JNum n) = Some (number_toString n)"
| "to_string (JStr s) = Some s"
| "to_string (JArr xs) =
     map_option join_comma
       (those (map (\<lambda>x. if nullish x then Some [] else to_string x) xs))"
| "to_string (JObj kvs) =
     (if ''toString'' \<in> fst ` set kvs then None else Some ''[object Object]'')"
| "to_string (JError n m) =
     Some (if m = [] then n else if n = [] then m else n @ '': '' @ m)"

text \<open>
  \<^verbatim>\<open>new Error(v)\<close>: the message is \<^verbatim>\<open>String(v)\<close>, and empty when \<^verbatim>\<open>v\<close> is
  \<^verbatim>\<open>undefined\<close>; where the conversion of \<^verbatim>\<open>v\<close> throws, the value that is thrown.
\<close>

definition new_Error :: "js \<Rightarrow> js" where
  "new_Error v =
     (if v = JUndefined then JError ''Error'' []
      else case to_string v of
             None \<Rightarrow> JError ''TypeError'' ''Cannot convert object to primitive value''
           | Some m \<Rightarrow> JError ''Error'' m)"

text \<open>A settled promise.\<close>

datatype promise = Resolved js | Rejected js

section \<open>The browser and the transport\<close>

text \<open>
  \<^verbatim>\<open>localStorage\<close> maps keys to strings; \<^verbatim>\<open>getItem\<close> answers \<^verbatim>\<open>null\<close>
  (\<^term>\<open>None\<close>) for a missing key. \<^verbatim>\<open>sent\<close> lists the requests handed to the
  network, \<^verbatim>\<open>events\<close> the dialogs and navigations, both in order. Logging to the
  console is not modelled. Of a request config, \<^verbatim>\<open>http_method\<close> is the field
  \<^verbatim>\<open>method\<close> (in lower case when the interceptors run) and \<^verbatim>\<open>body\<close> the field
  \<^verbatim>\<open>data\<close>.
\<close>

datatype event = Alert string | Confirm string | Reload | Navigate string

record config =
  http_method :: string
  url :: string
  params :: "(string \<rightharpoonup> js) option"
  body :: js
  headers :: "string \<rightharpoonup> string"

record browser =
  localStorage :: "string \<rightharpoonup> string"
  sent :: "config list"
  events :: "event list"

record response =
  status :: int
  data :: js

text \<open>
  What the network does with a request: it answers with a status and a body, or it gives
  no response and the error carries a code (\<^verbatim>\<open>ECONNABORTED\<close> on a timeout). axios
  resolves a response whose status is in \<open>[200, 300)\<close> and rejects every other one with
  an error whose \<^verbatim>\<open>response\<close> is set.
\<close>

datatype transport = Answered response | Unanswered js

datatype axios_error = WithResponse response | WithoutResponse js

definition settle :: "transport \<Rightarrow> axios_error + response" where
  "settle net =
     (case net of
        Answered r \<Rightarrow> if 200 \<le> status r \<and> status r < 300 then Inr r else Inl (WithResponse r)
      | Unanswered c \<Rightarrow> Inl (WithoutResponse c))"

text \<open>The truth value of a \<^verbatim>\<open>getItem\<close> result: a stored, non-empty string.\<close>

definition item_truthy :: "string option \<Rightarrow> bool" where
  "item_truthy item = (case item of None \<Rightarrow> False | Some s \<Rightarrow> s \<noteq> [])"

section \<open>String literals of the source\<close>

text \<open>The messages of the two wrappers are Chinese text; each is given by its UTF-8 bytes.\<close>

definition api_msg_network :: string where
  "api_msg_network =
     [CHR 0xE7, CHR 0xBD, CHR 0x91, CHR 0xE7, CHR 0xBB, CHR 0x9C, CHR 0xE8, CHR 0xBF, CHR 0x9E,
      CHR 0xE6, CHR 0x8E, CHR 0xA5, CHR 0xE5, CHR 0xA4, CHR 0xB1, CHR 0xE8, CHR 0xB4, CHR 0xA5,
      CHR 0xEF, CHR 0xBC, CHR 0x8C, CHR 0xE8, CHR 0xAF, CHR 0xB7, CHR 0xE6, CHR 0xA3, CHR 0x80,
      CHR 0xE6, CHR 0x9F, CHR 0xA5, CHR 0xE7, CHR 0xBD, CHR 0x91, CHR 0xE7, CHR 0xBB, CHR 0x9C,
      CHR 0xE8, CHR 0xAE, CHR 0xBE, CHR 0xE7, CHR 0xBD, CHR 0xAE]"

definition api_msg_retry :: string where
  "api_msg_retry =
     [CHR 0xE7, CHR 0xBD, CHR 0x91, CHR 0xE7, CHR 0xBB, CHR 0x9C, CHR 0xE8, CHR 0xBF, CHR 0x9E,
      CHR 0xE6, CHR 0x8E, CHR 0xA5, CHR 0xE5, CHR 0xA4, CHR 0xB1, CHR 0xE8, CHR 0xB4, CHR 0xA5,
      CHR 0xEF, CHR 0xBC, CHR 0x8C, CHR 0xE6, CHR 0x98, CHR 0xAF, CHR 0xE5, CHR 0x90, CHR 0xA6,
      CHR 0xE9, CHR 0x87, CHR 0x8D, CHR 0xE8, CHR 0xAF, CHR 0x95, CHR 0xEF, CHR 0xBC, CHR 0x9F]"

definition api_msg_unauthorized :: string where
  "api_msg_unauthorized =
     [CHR 0xE7, CHR 0x99, CHR 0xBB, CHR 0xE5, CHR 0xBD, CHR 0x95, CHR 0xE5, CHR 0xB7, CHR 0xB2,
      CHR 0xE8, CHR 0xBF, CHR 0x87, CHR 0xE6, CHR 0x9C, CHR 0x9F, CHR 0xEF, CHR 0xBC, CHR 0x8C,
      CHR 0xE8, CHR 0xAF, CHR 0xB7, CHR 0xE9, CHR 0x87, CHR 0x8D, CHR 0xE6, CHR 0x96, CHR 0xB0,
      CHR 0xE7, CHR 0x99, CHR 0xBB, CHR 0xE5, CHR 0xBD, CHR 0x95]"

definition api_msg_forbidden :: string where
  "api_msg_forbidden =
     [CHR 0xE6, CHR 0xB2, CHR 0xA1, CHR 0xE6, CHR 0x9C, CHR 0x89, CHR 0xE6, CHR 0x9D, CHR 0x83,
      CHR 0xE9, CHR 0x99, CHR 0x90, CHR 0xE8, CHR 0xAE, CHR 0xBF, CHR 0xE9, CHR 0x97, CHR 0xAE,
      CHR 0xE8, CHR 0xAF, CHR 0xA5, CHR 0xE8, CHR 0xB5, CHR 0x84, CHR 0xE6, CHR 0xBA, CHR 0x90]"

definition api_msg_not_found :: string where
  "api_msg_not_found =
     [CHR 0xE8, CHR 0xAF, CHR 0xB7, CHR 0xE6, CHR 0xB1, CHR 0x82, CHR 0xE7, CHR 0x9A, CHR 0x84,
      CHR 0xE8, CHR 0xB5, CHR 0x84, CHR 0xE6, CHR 0xBA, CHR 0x90, CHR 0xE4, CHR 0xB8, CHR 0x8D,
      CHR 0xE5, CHR 0xAD, CHR 0x98, CHR 0xE5, CHR 0x9C, CHR 0xA8]"

definition api_msg_server :: string where
  "api_msg_server =
     [CHR 0xE6, CHR 0x9C, CHR 0x8D, CHR 0xE5, CHR 0x8A, CHR 0xA1, CHR 0xE5, CHR 0x99, CHR 0xA8,
      CHR 0xE5, CHR 0x86, CHR 0x85, CHR 0xE9, CHR 0x83, CHR 0xA8, CHR 0xE9, CHR 0x94, CHR 0x99,
      CHR 0xE8, CHR 0xAF, CHR 0xAF, CHR 0xEF, CHR 0xBC, CHR 0x8C, CHR 0xE8, CHR 0xAF, CHR 0xB7,
      CHR 0xE7, CHR 0xA8, CHR 0x8D, CHR 0xE5, CHR 0x90, CHR 0x8E, CHR 0xE9, CHR 0x87, CHR 0x8D,
      CHR 0xE8, CHR 0xAF, CHR 0x95]"

definition api_msg_failed :: string where
  "api_msg_failed =
     [CHR 0xE8, CHR 0xAF, CHR 0xB7, CHR 0xE6, CHR 0xB1, CHR 0x82, CHR 0xE5, CHR 0xA4, CHR 0xB1,
      CHR 0xE8, CHR 0xB4, CHR 0xA5, CHR 0xEF, CHR 0xBC, CHR 0x8C, CHR 0xE8, CHR 0xAF, CHR 0xB7,
      CHR 0xE9, CHR 0x87, CHR 0x8D, CHR 0xE8, CHR 0xAF, CHR 0x95]"

definition api_msg_login_ok :: string where
  "api_msg_login_ok =
     [CHR 0xE7, CHR 0x99, CHR 0xBB, CHR 0xE5, CHR 0xBD, CHR 0x95, CHR 0xE6, CHR 0x88, CHR 0x90,
      CHR 0xE5, CHR 0x8A, CHR 0x9F]"

definition api_msg_login_failed :: string where
  "api_msg_login_failed =
     [CHR 0xE7, CHR 0x99, CHR 0xBB, CHR 0xE5, CHR 0xBD, CHR 0x95, CHR 0xE5, CHR 0xA4, CHR 0xB1,
      CHR 0xE8, CHR 0xB4, CHR 0xA5, CHR 0xEF, CHR 0xBC, CHR 0x8C, CHR 0xE8, CHR 0xAF, CHR 0xB7,
      CHR 0xE9, CHR 0x87, CHR 0x8D, CHR 0xE8, CHR 0xAF, CHR 0x95]"

definition api_msg_token_expired :: string where
  "api_msg_token_expired =
     [CHR 0x54, CHR 0x6F, CHR 0x6B, CHR 0x65, CHR 0x6E, CHR 0xE5, CHR 0xB7, CHR 0xB2, CHR 0xE8,
      CHR 0xBF, CHR 0x87, CHR 0xE6, CHR 0x9C, CHR 0x9F]"

definition api_msg_info_ok :: string where
  "api_msg_info_ok =
     [CHR 0xE8, CHR 0x8E, CHR 0xB7, CHR 0xE5, CHR 0x8F, CHR 0x96, CHR 0xE7, CHR 0x94, CHR 0xA8,
      CHR 0xE6, CHR 0x88, CHR 0xB7, CHR 0xE4, CHR 0xBF, CHR 0xA1, CHR 0xE6, CHR 0x81, CHR 0xAF,
      CHR 0xE6, CHR 0x88, CHR 0x90, CHR 0xE5, CHR 0x8A, CHR 0x9F]"

definition api_msg_info_failed :: string where
  "api_msg_info_failed =
     [CHR 0xE8, CHR 0x8E, CHR 0xB7, CHR 0xE5, CHR 0x8F, CHR 0x96, CHR 0xE7, CHR 0x94, CHR 0xA8,
      CHR 0xE6, CHR 0x88, CHR 0xB7, CHR 0xE4, CHR 0xBF, CHR 0xA1, CHR 0xE6, CHR 0x81, CHR 0xAF,
      CHR 0xE5, CHR 0xA4, CHR 0xB1, CHR 0xE8, CHR 0xB4, CHR 0xA5]"

definition request_msg_failed :: string where
  "request_msg_failed =
     [CHR 0xE8, CHR 0xAF, CHR 0xB7, CHR 0xE6, CHR 0xB1, CHR 0x82, CHR 0xE5, CHR 0xA4, CHR 0xB1,
      CHR 0xE8, CHR 0xB4, CHR 0xA5]"

definition request_msg_unauthorized :: string where
  "request_msg_unauthorized =
     [CHR 0xE6, CHR 0x9C, CHR 0xAA, CHR 0xE6, CHR 0x8E, CHR 0x88, CHR 0xE6, CHR 0x9D, CHR 0x83,
      CHR 0xEF, CHR 0xBC, CHR 0x8C, CHR 0xE8, CHR 0xAF, CHR 0xB7, CHR 0xE9, CHR 0x87, CHR 0x8D,
      CHR 0xE6, CHR 0x96, CHR 0xB0, CHR 0xE7, CHR 0x99, CHR 0xBB, CHR 0xE5, CHR 0xBD, CHR 0x95]"

definition request_msg_forbidden :: string where
  "request_msg_forbidden =
     [CHR 0xE6, CHR 0x8B, CHR 0x92, CHR 0xE7, CHR 0xBB, CHR 0x9D, CHR 0xE8, CHR 0xAE, CHR 0xBF,
      CHR 0xE9, CHR 0x97, CHR 0xAE]"

definition request_msg_not_found :: string where
  "request_msg_not_found =
     [CHR 0xE8, CHR 0xAF, CHR 0xB7, CHR 0xE6, CHR 0xB1, CHR 0x82, CHR 0xE5, CHR 0x9C, CHR 0xB0,
      CHR 0xE5, CHR 0x9D, CHR 0x80, CHR 0xE4, CHR 0xB8, CHR 0x8D, CHR 0xE5, CHR 0xAD, CHR 0x98,
      CHR 0xE5, CHR 0x9C, CHR 0xA8]"

definition request_msg_server :: string where
  "request_msg_server =
     [CHR 0xE6, CHR 0x9C, CHR 0x8D, CHR 0xE5, CHR 0x8A, CHR 0xA1, CHR 0xE5, CHR 0x99, CHR 0xA8,
      CHR 0xE5, CHR 0x86, CHR 0x85, CHR 0xE9, CHR 0x83, CHR 0xA8, CHR 0xE9, CHR 0x94, CHR 0x99,
      CHR 0xE8, CHR 0xAF, CHR 0xAF]"

definition request_msg_timeout :: string where
  "request_msg_timeout =
     [CHR 0xE8, CHR 0xAF, CHR 0xB7, CHR 0xE6, CHR 0xB1, CHR 0x82, CHR 0xE8, CHR 0xB6, CHR 0x85,
      CHR 0xE6, CHR 0x97, CHR 0xB6]"

definition request_msg_network :: string where
  "request_msg_network =
     [CHR 0xE7, CHR 0xBD, CHR 0x91, CHR 0xE7, CHR 0xBB, CHR 0x9C, CHR 0xE9, CHR 0x94, CHR 0x99,
      CHR 0xE8, CHR 0xAF, CHR 0xAF]"

section \<open>\<^verbatim>\<open>src/utils/api.js\<close>\<close>

subsection \<open>Interceptors\<close>

text \<open>The request interceptor (lines 19 to 37): bearer token and platform headers.\<close>

definition api_request_interceptor :: "config \<Rightarrow> browser \<Rightarrow> config" where
  "api_request_interceptor config b =
     (let token = localStorage b ''userToken'';
          h = (case token of
                 None \<Rightarrow> headers config
               | Some t \<Rightarrow>
                   if t = [] then headers config
                   else (headers config)(''Authorization'' \<mapsto> ''Bearer '' @ t))
      in config\<lparr>headers := h(''X-Platform'' \<mapsto> ''web'', ''X-Client-Version'' \<mapsto> ''1.0.0'')\<rparr>)"

text \<open>The response interceptor, success handler (lines 44 to 47).\<close>

definition api_on_fulfilled :: "response \<Rightarrow> promise" where
  "api_on_fulfilled r = Resolved (data r)"

text \<open>
  The response interceptor, error handler (lines 48 to 113). \<^verbatim>\<open>answer\<close> is what the
  user replies to \<^verbatim>\<open>window.confirm\<close>.
\<close>

definition api_on_rejected :: "bool \<Rightarrow> axios_error \<Rightarrow> browser \<Rightarrow> promise \<times> browser" where
  "api_on_rejected answer error b =
     (case error of
        WithoutResponse c \<Rightarrow>
          (Rejected (JObj [(''success'', JBool False),
                           (''message'', JStr api_msg_network),
                           (''code'', JStr ''NETWORK_ERROR'')]),
           b\<lparr>events := events b @ Confirm api_msg_retry # (if answer then [Reload] else [])\<rparr>)
      | WithResponse r \<Rightarrow>
          if status r = 401 then
            (Rejected (JObj [(''success'', JBool False),
                             (''message'', JStr api_msg_unauthorized),
                             (''code'', JStr ''UNAUTHORIZED'')]),
             b\<lparr>localStorage := (localStorage b)(''userToken'' := None, ''userInfo'' := None),
               events := events b @ [Alert api_msg_unauthorized, Reload]\<rparr>)
          else if status r = 403 then
            (Rejected (JObj [(''success'', JBool False),
                             (''message'', JStr api_msg_forbidden),
                             (''code'', JStr ''FORBIDDEN'')]),
             b\<lparr>events := events b @ [Alert api_msg_forbidden]\<rparr>)
          else if status r = 404 then
            (Rejected (JObj [(''success'', JBool False),
                             (''message'', JStr api_msg_not_found),
                             (''code'', JStr ''NOT_FOUND'')]),
             b)
          else if status r = 500 then
            (Rejected (JObj [(''success'', JBool False),
                             (''message'', JStr api_msg_server),
                             (''code'', JStr ''SERVER_ERROR'')]),
             b\<lparr>events := events b @ [Alert api_msg_server]\<rparr>)
          else
            (Rejected (JObj [(''success'', JBool False),
                             (''message'', js_or (opt_prop (data r) ''message'') (JStr api_msg_failed)),
                             (''code'', js_or (opt_prop (data r) ''code'') (JStr ''UNKNOWN_ERROR''))]),
             b))"

text \<open>
  One call through the instance \<^verbatim>\<open>api\<close>: the request interceptor, the network, then
  the response handler that axios selects.
\<close>

definition api_call :: "bool \<Rightarrow> transport \<Rightarrow> config \<Rightarrow> browser \<Rightarrow> promise \<times> browser" where
  "api_call answer net config b =
     (let out = api_request_interceptor config b;
          b1 = b\<lparr>sent := sent b @ [out]\<rparr>
      in case settle net of
           Inr r \<Rightarrow> (api_on_fulfilled r, b1)
         | Inl e \<Rightarrow> api_on_rejected answer e b1)"

text \<open>\<^verbatim>\<open>api.post(url, data)\<close> and \<^verbatim>\<open>api.get(url)\<close>, with the defaults of line 7 to 13.\<close>

definition api_post :: "bool \<Rightarrow> transport \<Rightarrow> string \<Rightarrow> js \<Rightarrow> browser \<Rightarrow> promise \<times> browser" where
  "api_post answer net u payload b =
     api_call answer net
       \<lparr>http_method = ''post'', url = u, params = None, body = payload,
        headers = [''Content-Type'' \<mapsto> ''application/json'']\<rparr> b"

definition api_get :: "bool \<Rightarrow> transport \<Rightarrow> string \<Rightarrow> browser \<Rightarrow> promise \<times> browser" where
  "api_get answer net u b =
     api_call answer net
       \<lparr>http_method = ''get'', url = u, params = None, body = JUndefined,
        headers = [''Content-Type'' \<mapsto> ''application/json'']\<rparr> b"

subsection \<open>Operations\<close>

text \<open>
  The \<^verbatim>\<open>catch\<close> block of the operations:
  \<^verbatim>\<open>{ success: false, message: error.message || fallback, code: error.code }\<close>.
\<close>

definition caught :: "string \<Rightarrow> js \<Rightarrow> js" where
  "caught fallback error =
     JObj [(''success'', JBool False),
           (''message'', js_or (get_prop error ''message'') (JStr fallback)),
           (''code'', get_prop error ''code'')]"

text \<open>
  \<^verbatim>\<open>loginUser\<close> (lines 122 to 161). \<^verbatim>\<open>now\<close> is the value of
  \<^verbatim>\<open>new Date().getTime()\<close> at line 144, \<^verbatim>\<open>browserInfo\<close> the object built from
  \<^verbatim>\<open>navigator\<close>.
\<close>

definition loginUser ::
  "int \<Rightarrow> bool \<Rightarrow> transport \<Rightarrow> js \<Rightarrow> js \<Rightarrow> browser \<Rightarrow> js \<times> browser" where
  "loginUser now answer net browserInfo loginData b =
     (if nullish loginData then
        (caught api_msg_login_failed (type_error loginData ''account''), b)
      else
        let payload = JObj [(''account'', get_prop loginData ''account''),
                            (''password'', get_prop loginData ''password''),
                            (''login_type'', get_prop loginData ''loginType''),
                            (''browser_info'', browserInfo),
                            (''platform'', JStr ''web'')];
            (p, b1) = api_post answer net ''/user/login'' payload b
        in case p of
             Rejected error \<Rightarrow> (caught api_msg_login_failed error, b1)
           | Resolved response \<Rightarrow>
               if nullish response then
                 (caught api_msg_login_failed (type_error response ''data''), b1)
               else
                 let b2 = (if truthy (opt_prop (get_prop response ''data'') ''token'') then
                             b1\<lparr>localStorage := (localStorage b1)
                                  (''tokenExpiration'' \<mapsto> number_toString (now + 24 * 60 * 60 * 1000))\<rparr>
                           else b1)
                 in (JObj [(''success'', JBool True),
                           (''data'', get_prop response ''data''),
                           (''message'',
                              js_or (get_prop response ''message'') (JStr api_msg_login_ok))],
                     b2))"

text \<open>
  A login call in time: the call is made at the clock reading \<^verbatim>\<open>called\<close>, and the
  response is handled \<^verbatim>\<open>elapsed\<close> milliseconds later. \<^verbatim>\<open>loginUser\<close> reads the clock
  once, at line 144, after the \<^verbatim>\<open>await api.post\<close> of line 133 has returned; it does
  not read it when it is called.
\<close>

definition loginUser_at ::
  "int \<Rightarrow> nat \<Rightarrow> bool \<Rightarrow> transport \<Rightarrow> js \<Rightarrow> js \<Rightarrow> browser \<Rightarrow> js \<times> browser" where
  "loginUser_at called elapsed answer net browserInfo loginData b =
     loginUser (called + int elapsed) answer net browserInfo loginData b"

text \<open>
  The expiry test of lines 201 and 292:
  \<^verbatim>\<open>expirationTime && new Date().getTime() > parseInt(expirationTime)\<close>.
  A comparison with \<^verbatim>\<open>NaN\<close> is false.
\<close>

definition token_expired :: "int \<Rightarrow> string option \<Rightarrow> bool" where
  "token_expired now expirationTime =
     (case expirationTime of
        None \<Rightarrow> False
      | Some e \<Rightarrow> e \<noteq> [] \<and> (case parseInt e of None \<Rightarrow> False | Some n \<Rightarrow> now > n))"

text \<open>\<^verbatim>\<open>getUserInfo\<close> (lines 197 to 220).\<close>

definition getUserInfo :: "int \<Rightarrow> bool \<Rightarrow> transport \<Rightarrow> browser \<Rightarrow> js \<times> browser" where
  "getUserInfo now answer net b =
     (let expirationTime = localStorage b ''tokenExpiration'' in
      if token_expired now expirationTime then
        (caught api_msg_info_failed (new_Error (JStr api_msg_token_expired)), b)
      else
        let (p, b1) = api_get answer net ''/user/info'' b
        in case p of
             Rejected error \<Rightarrow> (caught api_msg_info_failed error, b1)
           | Resolved response \<Rightarrow>
               if nullish response then
                 (caught api_msg_info_failed (type_error response ''data''), b1)
               else
                 (JObj [(''success'', JBool True),
                        (''data'', get_prop response ''data''),
                        (''message'',
                           js_or (get_prop response ''message'') (JStr api_msg_info_ok))],
                  b1))"

text \<open>\<^verbatim>\<open>checkLoginStatus\<close> (lines 286 to 301).\<close>

definition checkLoginStatus :: "int \<Rightarrow> browser \<Rightarrow> bool \<times> browser" where
  "checkLoginStatus now b =
     (let token = localStorage b ''userToken'';
          expirationTime = localStorage b ''tokenExpiration''
      in if \<not> item_truthy token then (False, b)
         else if token_expired now expirationTime then
           (False,
            b\<lparr>localStorage := (localStorage b)
                 (''userToken'' := None, ''userInfo'' := None, ''tokenExpiration'' := None)\<rparr>)
         else (True, b))"

section \<open>\<^verbatim>\<open>src/utils/request.js\<close>\<close>

text \<open>
  The request interceptor (lines 20 to 43). \<^verbatim>\<open>now\<close> is the value of \<^verbatim>\<open>Date.now()\<close>
  at line 32.
\<close>

definition request_request_interceptor :: "int \<Rightarrow> config \<Rightarrow> browser \<Rightarrow> config" where
  "request_request_interceptor now config b =
     (let token = localStorage b ''token'';
          c1 = (case token of
                  None \<Rightarrow> config
                | Some t \<Rightarrow>
                    if t = [] then config
                    else config\<lparr>headers := (headers config)(''Authorization'' \<mapsto> ''Bearer '' @ t)\<rparr>)
      in if http_method c1 = ''get'' then
           c1\<lparr>params :=
                Some ((case params c1 of None \<Rightarrow> Map.empty | Some ps \<Rightarrow> ps)(''_t'' \<mapsto> JNum now))\<rparr>
         else c1)"

text \<open>The response interceptor, success handler (lines 50 to 62).\<close>

definition request_on_fulfilled :: "response \<Rightarrow> promise" where
  "request_on_fulfilled r =
     (let d = data r in
      if nullish d then Rejected (type_error d ''code'')
      else if get_prop d ''code'' = JNum 200 \<or> truthy (get_prop d ''success'') then
        Resolved (js_or (get_prop d ''data'') d)
      else
        let errorMessage = js_or (get_prop d ''message'') (JStr request_msg_failed)
        in Rejected (new_Error errorMessage))"

text \<open>The response interceptor, error handler (lines 63 to 100).\<close>

definition request_on_rejected :: "axios_error \<Rightarrow> browser \<Rightarrow> promise \<times> browser" where
  "request_on_rejected error b =
     (case error of
        WithResponse r \<Rightarrow>
          if status r = 401 then
            (Rejected (new_Error (JStr request_msg_unauthorized)),
             b\<lparr>localStorage := (localStorage b)(''token'' := None),
               events := events b @ [Navigate ''/login'']\<rparr>)
          else if status r = 403 then (Rejected (new_Error (JStr request_msg_forbidden)), b)
          else if status r = 404 then (Rejected (new_Error (JStr request_msg_not_found)), b)
          else if status r = 500 then (Rejected (new_Error (JStr request_msg_server)), b)
          else
            (Rejected (new_Error
               (js_or (opt_prop (data r) ''message'')
                  (JStr (request_msg_failed @ '' ('' @ number_toString (status r) @ '')'')))),
             b)
      | WithoutResponse c \<Rightarrow>
          if c = JStr ''ECONNABORTED'' then (Rejected (new_Error (JStr request_msg_timeout)), b)
          else (Rejected (new_Error (JStr request_msg_network)), b))"

text \<open>One call through the instance \<^verbatim>\<open>request\<close>.\<close>

definition request_call :: "int \<Rightarrow> transport \<Rightarrow> config \<Rightarrow> browser \<Rightarrow> promise \<times> browser" where
  "request_call now net config b =
     (let out = request_request_interceptor now config b;
          b1 = b\<lparr>sent := sent b @ [out]\<rparr>
      in case settle net of
           Inr r \<Rightarrow> (request_on_fulfilled r, b1)
         | Inl e \<Rightarrow> request_on_rejected e b1)"

section \<open>Vocabulary of the specification\<close>

text \<open>
  The Session Store of the specification is the three keys \<^verbatim>\<open>userToken\<close>,
  \<^verbatim>\<open>userInfo\<close> and \<^verbatim>\<open>tokenExpiration\<close> of \<^verbatim>\<open>localStorage\<close>; it is empty when
  all three are absent.
\<close>

definition session_empty :: "browser \<Rightarrow> bool" where
  "session_empty b =
     (localStorage b ''userToken'' = None \<and> localStorage b ''userInfo'' = None \<and>
      localStorage b ''tokenExpiration'' = None)"

text \<open>
  The normalized error shape \<^verbatim>\<open>{ success: false, message, code }\<close>: the flag is
  \<^verbatim>\<open>false\<close>, a message and a code are there.
\<close>

definition normalized_error :: "js \<Rightarrow> bool" where
  "normalized_error v =
     (get_prop v ''success'' = JBool False \<and> get_prop v ''message'' \<noteq> JUndefined \<and>
      get_prop v ''code'' \<noteq> JUndefined)"

text \<open>The cache-busting query parameter \<^verbatim>\<open>_t\<close> of an outgoing request, if any.\<close>

definition cache_buster :: "config \<Rightarrow> js option" where
  "cache_buster c = (case params c of None \<Rightarrow> None | Some ps \<Rightarrow> ps ''_t'')"

text \<open>
  \<^verbatim>\<open>isValid()\<close> in the words of the specification, section 4.2: true iff a token exists
  and (no expiration recorded, or current time < expiration). A recorded value that is
  not a number compares false, as \<^verbatim>\<open>NaN\<close> does.
\<close>

definition spec_isValid :: "int \<Rightarrow> browser \<Rightarrow> bool" where
  "spec_isValid now b =
     (case localStorage b ''userToken'' of
        None \<Rightarrow> False
      | Some t \<Rightarrow>
          (case localStorage b ''tokenExpiration'' of
             None \<Rightarrow> True
           | Some e \<Rightarrow> (case parseInt e of None \<Rightarrow> False | Some n \<Rightarrow> now < n)))"

section \<open>Example states\<close>

definition session_browser :: browser where
  "session_browser =
     \<lparr>localStorage = [''userToken'' \<mapsto> ''t1'', ''userInfo'' \<mapsto> ''{}'',
                       ''tokenExpiration'' \<mapsto> ''1700086400000''],
      sent = [], events = []\<rparr>"

definition get_info_config :: config where
  "get_info_config =
     \<lparr>http_method = ''get'', url = ''/user/info'', params = Some Map.empty, body = JUndefined,
      headers = [''Content-Type'' \<mapsto> ''application/json'']\<rparr>"

section \<open>Facts about the runtime functions\<close>

lemma trim_start_done: "leading_space s = None \<Longrightarrow> trim_start s = s"
  by (simp add: trim_start.simps)

lemma trim_start_step:
  "leading_space s = Some w \<Longrightarrow> trim_start s = trim_start (drop (length w) s)"
  by (simp add: trim_start.simps)

lemma digits_of_small: "n < 10 \<Longrightarrow> digits_of n = [digit_char n]"
  by (simp add: digits_of.simps [of n])

lemma digits_of_large:
  "\<not> n < 10 \<Longrightarrow> digits_of n = digits_of (n div 10) @ [digit_char (n mod 10)]"
  by (simp add: digits_of.simps [of n])

text \<open>Rules that evaluate \<^const>\<open>parseInt\<close> and \<^const>\<open>number_toString\<close> on literals.\<close>

lemmas parseInt_eval =
  parseInt_def trim_start_done trim_start_step leading_space_def white_space_def
  radix_digit_def digit_value_def

lemmas number_toString_eval =
  number_toString_def digits_of_small digits_of_large digit_char_def

lemma digit_char_mem: "d < 10 \<Longrightarrow> digit_char d \<in> set ''0123456789''"
  unfolding digit_char_def by (rule nth_mem) simp

lemma radix_digit_digit_char: "d < 10 \<Longrightarrow> radix_digit 10 (digit_char d) = Some d"
proof -
  assume "d < 10"
  then have "d \<in> {0, 1, 2, 3, 4, 5, 6, 7, 8, 9}" by auto
  then show ?thesis
    by (auto simp: radix_digit_def digit_value_def digit_char_def)
qed

lemma set_digits_of: "set (digits_of n) \<subseteq> set ''0123456789''"
proof (induction n rule: digits_of.induct)
  case (1 n)
  show ?case
  proof (cases "n < 10")
    case True
    then show ?thesis using digit_char_mem [of n] by (simp add: digits_of_small)
  next
    case False
    have "n mod 10 < 10" by simp
    from digit_char_mem [OF this] "1.IH" [OF False] False show ?thesis
      by (simp add: digits_of_large)
  qed
qed

lemma digits_of_nonempty: "digits_of n \<noteq> []"
  by (subst digits_of.simps) simp

lemma parse_digits_digits_of:
  "parse_digits 10 acc (digits_of n @ rest) =
     parse_digits 10
       (Some ((case acc of None \<Rightarrow> 0 | Some a \<Rightarrow> a) * 10 ^ length (digits_of n) + n)) rest"
proof (induction n arbitrary: acc rest rule: digits_of.induct)
  case (1 n)
  show ?case
  proof (cases "n < 10")
    case True
    then show ?thesis
      by (simp add: digits_of_small radix_digit_digit_char)
  next
    case False
    let ?a = "case acc of None \<Rightarrow> 0 | Some a \<Rightarrow> a"
    have m: "n mod 10 < 10" by simp
    have "parse_digits 10 acc (digits_of n @ rest) =
          parse_digits 10 acc (digits_of (n div 10) @ (digit_char (n mod 10) # rest))"
      using False by (simp add: digits_of_large)
    also have "\<dots> =
          parse_digits 10 (Some (?a * 10 ^ length (digits_of (n div 10)) + n div 10))
            (digit_char (n mod 10) # rest)"
      by (rule "1.IH" [OF False])
    also have "\<dots> = parse_digits 10 (Some (?a * 10 ^ length (digits_of n) + n)) rest"
      using False
      by (simp add: radix_digit_digit_char [OF m] digits_of_large [of n] algebra_simps)
    finally show ?thesis .
  qed
qed

lemma parse_digits_of: "parse_digits 10 None (digits_of n) = Some n"
  using parse_digits_digits_of [of None n "[]"] by simp

lemma white_space_heads: "w \<in> set white_space \<Longrightarrow> hd w \<notin> set ''-0123456789''"
  by (auto simp: white_space_def)

lemma leading_space_digit:
  assumes "c \<in> set ''-0123456789''"
  shows "leading_space (c # cs) = None"
proof -
  have "take (length w) (c # cs) \<noteq> w" if w: "w \<in> set white_space" for w
  proof
    assume t: "take (length w) (c # cs) = w"
    from w have "w \<noteq> []" by (auto simp: white_space_def)
    then obtain a w' where "w = a # w'" by (cases w) auto
    with t have "hd w = c" by simp
    with white_space_heads [OF w] assms show False by simp
  qed
  then show ?thesis by (auto simp: leading_space_def find_None_iff)
qed

lemma digits_of_shape: "\<exists>c cs. digits_of n = c # cs \<and> c \<in> set ''0123456789''"
proof -
  obtain c cs where e: "digits_of n = c # cs"
    using digits_of_nonempty [of n] by (cases "digits_of n") auto
  with set_digits_of [of n] have "c \<in> set ''0123456789''" by auto
  with e show ?thesis by blast
qed

lemma digits_of_no_prefix:
  "take 2 (digits_of n) \<noteq> ''0x''" "take 2 (digits_of n) \<noteq> ''0X''"
proof -
  have x: "CHR ''x'' \<notin> set (digits_of n)" "CHR ''X'' \<notin> set (digits_of n)"
    using set_digits_of [of n] by auto
  show "take 2 (digits_of n) \<noteq> ''0x''"
  proof
    assume "take 2 (digits_of n) = ''0x''"
    then have "CHR ''x'' \<in> set (take 2 (digits_of n))" by simp
    with x(1) show False by (blast dest: in_set_takeD)
  qed
  show "take 2 (digits_of n) \<noteq> ''0X''"
  proof
    assume "take 2 (digits_of n) = ''0X''"
    then have "CHR ''X'' \<in> set (take 2 (digits_of n))" by simp
    with x(2) show False by (blast dest: in_set_takeD)
  qed
qed

lemma parseInt_unsigned:
  assumes "leading_space s = None" and "take 1 s \<noteq> ''-''" and "take 1 s \<noteq> ''+''"
    and "take 2 s \<noteq> ''0x''" and "take 2 s \<noteq> ''0X''"
  shows "parseInt s = map_option int (parse_digits 10 None s)"
proof -
  have t: "trim_start s = s" using assms(1) by (rule trim_start_done)
  show ?thesis
    unfolding parseInt_def t Let_def
    by (simp only: assms(2-5) if_False simp_thms split: option.split) simp
qed

lemma parseInt_negative:
  assumes "take 2 s \<noteq> ''0x''" and "take 2 s \<noteq> ''0X''"
  shows "parseInt (CHR ''-'' # s) = map_option (\<lambda>n. - int n) (parse_digits 10 None s)"
proof -
  have "leading_space (CHR ''-'' # s) = None"
    by (rule leading_space_digit) simp
  then have t: "trim_start (CHR ''-'' # s) = CHR ''-'' # s" by (rule trim_start_done)
  have s1: "take 1 (CHR ''-'' # s) = ''-''" "drop 1 (CHR ''-'' # s) = s" by simp_all
  show ?thesis
    unfolding parseInt_def t Let_def s1
    by (simp only: assms if_False if_True simp_thms split: option.split) simp
qed

lemma parseInt_digits_of: "parseInt (digits_of n) = Some (int n)"
proof -
  obtain c cs where e: "digits_of n = c # cs" and c: "c \<in> set ''0123456789''"
    using digits_of_shape by blast
  from c have "leading_space (c # cs) = None" by (intro leading_space_digit) auto
  then have ls: "leading_space (digits_of n) = None" by (simp add: e)
  from c have "c \<noteq> CHR ''-''" "c \<noteq> CHR ''+''" by auto
  then have sign: "take 1 (digits_of n) \<noteq> ''-''" "take 1 (digits_of n) \<noteq> ''+''"
    by (simp_all add: e)
  show ?thesis
    by (simp add: parseInt_unsigned [OF ls sign digits_of_no_prefix] parse_digits_of)
qed

lemma parseInt_minus_digits_of: "parseInt (CHR ''-'' # digits_of n) = Some (- int n)"
  by (simp add: parseInt_negative [OF digits_of_no_prefix] parse_digits_of)

text \<open>What \<^const>\<open>number_toString\<close> writes, \<^const>\<open>parseInt\<close> reads back.\<close>

lemma parseInt_number_toString: "parseInt (number_toString i) = Some i"
  by (simp add: number_toString_def parseInt_digits_of parseInt_minus_digits_of)

lemma parseInt_empty: "parseInt [] = None"
  by (simp add: parseInt_eval)

lemma token_expired_iff:
  "token_expired now item = (\<exists>e n. item = Some e \<and> parseInt e = Some n \<and> n < now)"
proof (cases item)
  case None
  then show ?thesis by (simp add: token_expired_def)
next
  case (Some e)
  then show ?thesis
    by (cases "e = []") (auto simp: token_expired_def parseInt_empty split: option.splits)
qed

section \<open>The session checks of \<^verbatim>\<open>api.js\<close>\<close>

lemma checkLoginStatus_without_token:
  "\<not> item_truthy (localStorage b ''userToken'') \<Longrightarrow> checkLoginStatus now b = (False, b)"
  by (simp add: checkLoginStatus_def)

lemma checkLoginStatus_when_expired:
  "item_truthy (localStorage b ''userToken'') \<Longrightarrow>
   token_expired now (localStorage b ''tokenExpiration'') \<Longrightarrow>
   checkLoginStatus now b =
     (False,
      b\<lparr>localStorage := (localStorage b)
           (''userToken'' := None, ''userInfo'' := None, ''tokenExpiration'' := None)\<rparr>)"
  by (simp add: checkLoginStatus_def)

lemma checkLoginStatus_when_valid:
  "item_truthy (localStorage b ''userToken'') \<Longrightarrow>
   \<not> token_expired now (localStorage b ''tokenExpiration'') \<Longrightarrow>
   checkLoginStatus now b = (True, b)"
  by (simp add: checkLoginStatus_def)

text \<open>
  C5, as stated: for every Session Store state and every current time, \<^verbatim>\<open>isValid()\<close>
  returns true if and only if a token exists and (no expiration is recorded, or the
  current time is strictly less than the recorded expiration). This fails at the instant
  of expiry: with token \<^verbatim>\<open>t1\<close> and expiration 1700086400000 stored,
  \<^verbatim>\<open>checkLoginStatus\<close> at time 1700086400000 answers true, since line 292 tests
  \<^verbatim>\<open>now > expiration\<close>, while the stated condition is false.
\<close>

theorem checkLoginStatus_at_expiry_instant:
  "fst (checkLoginStatus 1700086400000 session_browser) = True \<and>
   spec_isValid 1700086400000 session_browser = False"
  by (simp add: checkLoginStatus_def spec_isValid_def session_browser_def item_truthy_def
      token_expired_def parseInt_eval)

text \<open>
  C5, amended: for every Session Store state and every current time, \<^verbatim>\<open>isValid()\<close>
  returns true if and only if a non-empty token is stored and no recorded expiration
  parses to a number earlier than the current time (so: no expiration recorded, or an
  empty or unparsable one, or current time \<open>\<le>\<close> expiration).
\<close>

theorem checkLoginStatus_iff:
  "fst (checkLoginStatus now b) =
     ((\<exists>t. localStorage b ''userToken'' = Some t \<and> t \<noteq> []) \<and>
      \<not> (\<exists>e n. localStorage b ''tokenExpiration'' = Some e \<and> parseInt e = Some n \<and> n < now))"
proof (cases "item_truthy (localStorage b ''userToken'')")
  case False
  then have "\<not> (\<exists>t. localStorage b ''userToken'' = Some t \<and> t \<noteq> [])"
    by (auto simp: item_truthy_def)
  with False show ?thesis by (simp add: checkLoginStatus_without_token)
next
  case True
  then have tok: "\<exists>t. localStorage b ''userToken'' = Some t \<and> t \<noteq> []"
    by (auto simp: item_truthy_def split: option.splits)
  show ?thesis
  proof (cases "token_expired now (localStorage b ''tokenExpiration'')")
    case expired: True
    then have "\<exists>e n. localStorage b ''tokenExpiration'' = Some e \<and>
        parseInt e = Some n \<and> n < now"
      by (simp add: token_expired_iff)
    with True expired show ?thesis by (simp add: checkLoginStatus_when_expired)
  next
    case valid: False
    then have "\<not> (\<exists>e n. localStorage b ''tokenExpiration'' = Some e \<and>
        parseInt e = Some n \<and> n < now)"
      by (simp add: token_expired_iff)
    with True valid tok show ?thesis by (simp add: checkLoginStatus_when_valid)
  qed
qed

theorem checkLoginStatus_iff_witness:
  "fst (checkLoginStatus 1700086400000 session_browser) \<and>
   (\<exists>t. localStorage session_browser ''userToken'' = Some t \<and> t \<noteq> []) \<and>
   \<not> (\<exists>e n. localStorage session_browser ''tokenExpiration'' = Some e \<and>
        parseInt e = Some n \<and> n < 1700086400000)"
proof -
  have p: "parseInt ''1700086400000'' = Some 1700086400000"
    by (simp add: parseInt_eval)
  have tok: "\<exists>t. localStorage session_browser ''userToken'' = Some t \<and> t \<noteq> []"
    by (simp add: session_browser_def)
  have ex: "\<not> (\<exists>e n. localStorage session_browser ''tokenExpiration'' = Some e \<and>
      parseInt e = Some n \<and> n < 1700086400000)"
    using p by (auto simp: session_browser_def)
  from tok ex checkLoginStatus_iff [of 1700086400000 session_browser] show ?thesis
    by blast
qed

text \<open>
  C8, as stated: for every Session Store state with an expiration timestamp strictly in
  the past, \<^verbatim>\<open>isValid()\<close> returns false and afterwards the store is empty. With no token
  stored, line 290 returns before the expiry test: user info and a past expiration stay.
\<close>

theorem checkLoginStatus_no_token_keeps_store:
  "parseInt ''1000'' = Some 1000 \<and>
   checkLoginStatus 2000
     \<lparr>localStorage = [''userInfo'' \<mapsto> ''{}'', ''tokenExpiration'' \<mapsto> ''1000''],
      sent = [], events = []\<rparr> =
   (False,
     \<lparr>localStorage = [''userInfo'' \<mapsto> ''{}'', ''tokenExpiration'' \<mapsto> ''1000''],
      sent = [], events = []\<rparr>) \<and>
   \<not> session_empty
     (snd (checkLoginStatus 2000
       \<lparr>localStorage = [''userInfo'' \<mapsto> ''{}'', ''tokenExpiration'' \<mapsto> ''1000''],
        sent = [], events = []\<rparr>))"
  by (simp add: checkLoginStatus_def item_truthy_def session_empty_def parseInt_eval)

text \<open>
  C8, amended: for every Session Store state with a non-empty token and an expiration
  timestamp strictly in the past, \<^verbatim>\<open>isValid()\<close> returns false and afterwards the store is
  empty: the token, the user info and the expiration timestamp are all absent.
\<close>

theorem checkLoginStatus_expired_clears:
  assumes "localStorage b ''userToken'' = Some t" and "t \<noteq> []"
    and "localStorage b ''tokenExpiration'' = Some e" and "parseInt e = Some n" and "n < now"
  shows "fst (checkLoginStatus now b) = False \<and> session_empty (snd (checkLoginStatus now b))"
proof -
  have tok: "item_truthy (localStorage b ''userToken'')"
    using assms(1,2) by (simp add: item_truthy_def)
  have ex: "token_expired now (localStorage b ''tokenExpiration'')"
    using assms(3-5) by (auto simp: token_expired_iff)
  show ?thesis
    by (simp add: checkLoginStatus_when_expired [OF tok ex] session_empty_def)
qed

theorem checkLoginStatus_expired_clears_witness:
  "localStorage session_browser ''userToken'' = Some ''t1'' \<and> ''t1'' \<noteq> [] \<and>
   localStorage session_browser ''tokenExpiration'' = Some ''1700086400000'' \<and>
   parseInt ''1700086400000'' = Some 1700086400000 \<and>
   (1700086400000 :: int) < 1700086400001 \<and>
   fst (checkLoginStatus 1700086400001 session_browser) = False \<and>
   session_empty (snd (checkLoginStatus 1700086400001 session_browser))"
proof -
  have h1: "localStorage session_browser ''userToken'' = Some ''t1''"
    and h2: "''t1'' \<noteq> []"
    and h3: "localStorage session_browser ''tokenExpiration'' = Some ''1700086400000''"
    by (simp_all add: session_browser_def)
  have h4: "parseInt ''1700086400000'' = Some 1700086400000"
    by (simp add: parseInt_eval)
  have h5: "(1700086400000 :: int) < 1700086400001" by simp
  from checkLoginStatus_expired_clears [OF h1 h2 h3 h4 h5] h1 h3 h4 show ?thesis
    by simp
qed

text \<open>
  C10, as stated: for every Session Store state where a token exists and the stored
  expiration does not parse to a number, \<^verbatim>\<open>isValid()\<close> returns true and the store is left
  unchanged. A stored token that is the empty string exists in the store, yet line 290
  treats it as absent and the answer is false.
\<close>

theorem checkLoginStatus_empty_token:
  "parseInt ''abc'' = None \<and>
   fst (checkLoginStatus 1000
     \<lparr>localStorage = [''userToken'' \<mapsto> [], ''tokenExpiration'' \<mapsto> ''abc''],
      sent = [], events = []\<rparr>) = False"
  by (simp add: checkLoginStatus_def item_truthy_def parseInt_eval)

text \<open>
  C10, amended: for every Session Store state where a non-empty token exists and the
  stored expiration value is a string that does not parse to a number, \<^verbatim>\<open>isValid()\<close>
  returns true and the store is left unchanged: a corrupted expiration timestamp makes the
  session count as never expiring.
\<close>

theorem checkLoginStatus_unparsable_expiration:
  assumes "localStorage b ''userToken'' = Some t" and "t \<noteq> []"
    and "localStorage b ''tokenExpiration'' = Some e" and "parseInt e = None"
  shows "checkLoginStatus now b = (True, b)"
proof -
  have tok: "item_truthy (localStorage b ''userToken'')"
    using assms(1,2) by (simp add: item_truthy_def)
  have ex: "\<not> token_expired now (localStorage b ''tokenExpiration'')"
    using assms(3,4) by (simp add: token_expired_iff)
  show ?thesis by (rule checkLoginStatus_when_valid [OF tok ex])
qed

theorem checkLoginStatus_unparsable_expiration_witness:
  "parseInt ''soon'' = None \<and>
   checkLoginStatus 1700086400001
     \<lparr>localStorage = [''userToken'' \<mapsto> ''t1'', ''tokenExpiration'' \<mapsto> ''soon''],
      sent = [], events = []\<rparr> =
   (True,
     \<lparr>localStorage = [''userToken'' \<mapsto> ''t1'', ''tokenExpiration'' \<mapsto> ''soon''],
      sent = [], events = []\<rparr>)"
proof -
  let ?b = "\<lparr>localStorage = [''userToken'' \<mapsto> ''t1'', ''tokenExpiration'' \<mapsto> ''soon''],
      sent = [], events = []\<rparr>"
  have h1: "localStorage ?b ''userToken'' = Some ''t1''" and h2: "''t1'' \<noteq> []"
    and h3: "localStorage ?b ''tokenExpiration'' = Some ''soon''"
    by simp_all
  have h4: "parseInt ''soon'' = None" by (simp add: parseInt_eval)
  from checkLoginStatus_unparsable_expiration [OF h1 h2 h3 h4, of 1700086400001] h4
  show ?thesis by simp
qed

text \<open>
  C7: for every Session Store state where the stored expiration timestamp is strictly
  less than the current time, the fetch-profile operation returns a failure result (with
  the message of line 202) and issues no network call; the browser state is unchanged.
\<close>

theorem getUserInfo_expired_fails_without_call:
  assumes "localStorage b ''tokenExpiration'' = Some e" and "parseInt e = Some n" and "n < now"
  shows "get_prop (fst (getUserInfo now answer net b)) ''success'' = JBool False \<and>
         get_prop (fst (getUserInfo now answer net b)) ''message'' = JStr api_msg_token_expired \<and>
         sent (snd (getUserInfo now answer net b)) = sent b \<and>
         snd (getUserInfo now answer net b) = b"
proof -
  have ex: "token_expired now (localStorage b ''tokenExpiration'')"
    using assms by (auto simp: token_expired_iff)
  have msg: "api_msg_token_expired \<noteq> []" by (simp add: api_msg_token_expired_def)
  have "getUserInfo now answer net b =
        (caught api_msg_info_failed (JError ''Error'' api_msg_token_expired), b)"
    using ex by (simp add: getUserInfo_def new_Error_def)
  then show ?thesis using msg by (simp add: caught_def js_or_def)
qed

theorem getUserInfo_expired_fails_without_call_witness:
  "localStorage session_browser ''tokenExpiration'' = Some ''1700086400000'' \<and>
   parseInt ''1700086400000'' = Some 1700086400000 \<and>
   (1700086400000 :: int) < 1700086400001 \<and>
   get_prop (fst (getUserInfo 1700086400001 False (Answered \<lparr>status = 200, data = JNull\<rparr>)
     session_browser)) ''success'' = JBool False \<and>
   sent (snd (getUserInfo 1700086400001 False (Answered \<lparr>status = 200, data = JNull\<rparr>)
     session_browser)) = []"
proof -
  have h1: "localStorage session_browser ''tokenExpiration'' = Some ''1700086400000''"
    by (simp add: session_browser_def)
  have h2: "parseInt ''1700086400000'' = Some 1700086400000"
    by (simp add: parseInt_eval)
  have h3: "(1700086400000 :: int) < 1700086400001" by simp
  have s: "sent session_browser = []" by (simp add: session_browser_def)
  from getUserInfo_expired_fails_without_call [OF h1 h2 h3, of False
      "Answered \<lparr>status = 200, data = JNull\<rparr>"] h1 h2 s
  show ?thesis by simp
qed

section \<open>The interceptors\<close>

lemma settle_2xx: "200 \<le> status r \<Longrightarrow> status r < 300 \<Longrightarrow> settle (Answered r) = Inr r"
  by (simp add: settle_def)

lemma settle_Inl_cases:
  assumes "settle net = Inl e"
  shows "(\<exists>c. e = WithoutResponse c) \<or>
         (\<exists>r. e = WithResponse r \<and> \<not> (200 \<le> status r \<and> status r < 300))"
  using assms by (auto simp: settle_def split: transport.splits if_splits)

lemma js_or_defined: "js_or a (JStr s) \<noteq> JUndefined"
  by (cases a) (simp_all add: js_or_def)

lemma new_Error_JStr: "new_Error (JStr m) = JError ''Error'' m"
  by (simp add: new_Error_def)

lemma new_Error_is_JError: "\<exists>n m. new_Error v = JError n m"
  by (simp add: new_Error_def split: option.split)

lemma not_normalized_JError: "\<not> normalized_error (JError n m)"
  by (simp add: normalized_error_def)

lemma api_call_2xx:
  "200 \<le> status r \<Longrightarrow> status r < 300 \<Longrightarrow>
   api_call answer (Answered r) c b =
     (Resolved (data r), b\<lparr>sent := sent b @ [api_request_interceptor c b]\<rparr>)"
  by (simp add: api_call_def settle_2xx api_on_fulfilled_def)


text \<open>What a 401 response does to \<^verbatim>\<open>localStorage\<close>, in each wrapper.\<close>

lemma api_call_401_storage:
  "status r = 401 \<Longrightarrow>
   localStorage (snd (api_call answer (Answered r) c b)) =
     (localStorage b)(''userToken'' := None, ''userInfo'' := None)"
  by (simp add: api_call_def settle_def api_on_rejected_def)

lemma request_call_401_storage:
  "status r = 401 \<Longrightarrow>
   localStorage (snd (request_call now (Answered r) c b)) = (localStorage b)(''token'' := None)"
  by (simp add: request_call_def settle_def request_on_rejected_def)

text \<open>The error handlers reject in every branch; the shape of the value differs.\<close>

lemma api_on_rejected_normalized:
  "\<exists>v. fst (api_on_rejected answer e b) = Rejected v \<and> normalized_error v"
proof (cases e)
  case (WithoutResponse code)
  then show ?thesis by (simp add: api_on_rejected_def normalized_error_def)
next
  case (WithResponse r)
  consider "status r = 401" | "status r = 403" | "status r = 404" | "status r = 500"
    | "status r \<notin> {401, 403, 404, 500}"
    by auto
  then show ?thesis
    using WithResponse
    by cases (simp_all add: api_on_rejected_def normalized_error_def js_or_defined)
qed

lemma request_on_rejected_is_Error:
  "\<exists>n m. fst (request_on_rejected e b) = Rejected (JError n m)"
proof (cases e)
  case (WithoutResponse code)
  then show ?thesis by (simp add: request_on_rejected_def new_Error_JStr)
next
  case (WithResponse r)
  consider "status r = 401" | "status r = 403" | "status r = 404" | "status r = 500"
    | "status r \<notin> {401, 403, 404, 500}"
    by auto
  then show ?thesis
    using WithResponse new_Error_is_JError
    by cases (simp_all add: request_on_rejected_def new_Error_JStr)
qed

text \<open>
  C1: for every HTTP response with transport status 401, after the response interceptor
  runs the Session Store is empty. The code at the input of a logged-in session: the 401
  branch of \<^verbatim>\<open>api.js\<close> (lines 71 to 81) removes \<^verbatim>\<open>userToken\<close> and \<^verbatim>\<open>userInfo\<close>
  and leaves \<^verbatim>\<open>tokenExpiration\<close> in the store.
\<close>

theorem api_401_keeps_tokenExpiration:
  "localStorage (snd (api_get False (Answered \<lparr>status = 401, data = JNull\<rparr>) ''/user/info''
      session_browser)) ''userToken'' = None \<and>
   localStorage (snd (api_get False (Answered \<lparr>status = 401, data = JNull\<rparr>) ''/user/info''
      session_browser)) ''userInfo'' = None \<and>
   localStorage (snd (api_get False (Answered \<lparr>status = 401, data = JNull\<rparr>) ''/user/info''
      session_browser)) ''tokenExpiration'' = Some ''1700086400000'' \<and>
   \<not> session_empty (snd (api_get False (Answered \<lparr>status = 401, data = JNull\<rparr>) ''/user/info''
      session_browser))"
  by (simp add: api_get_def api_call_def settle_def api_on_rejected_def session_browser_def
      session_empty_def)

text \<open>
  C2, as stated: every failure resolves to a rejected result carrying the normalized error
  shape \<^verbatim>\<open>{ success: false, message, code }\<close>. Through \<^verbatim>\<open>request.js\<close> a 404 response
  is rejected with an \<^verbatim>\<open>Error\<close> object, which has a message and neither a
  \<^verbatim>\<open>success\<close> flag nor a \<^verbatim>\<open>code\<close>.
\<close>

theorem request_call_404_not_normalized:
  "fst (request_call 1700000000000 (Answered \<lparr>status = 404, data = JNull\<rparr>) get_info_config
      session_browser) = Rejected (JError ''Error'' request_msg_not_found) \<and>
   get_prop (JError ''Error'' request_msg_not_found) ''success'' = JUndefined \<and>
   get_prop (JError ''Error'' request_msg_not_found) ''code'' = JUndefined \<and>
   \<not> normalized_error (JError ''Error'' request_msg_not_found)"
  by (simp add: request_call_def settle_def request_on_rejected_def new_Error_JStr
      normalized_error_def)

text \<open>
  C2, amended: for every transport failure (no response, or a response outside 2xx), a
  call through \<^verbatim>\<open>api.js\<close> is rejected with the normalized error shape
  \<^verbatim>\<open>{ success: false, message, code }\<close>, and a call through \<^verbatim>\<open>request.js\<close> is
  rejected with an \<^verbatim>\<open>Error\<close> object (a message, no success flag, no code); neither
  passes the raw transport error on.
\<close>

theorem transport_failure_rejections:
  assumes "settle net = Inl e"
  shows "(\<exists>v. fst (api_call answer net c b) = Rejected v \<and> normalized_error v) \<and>
         (\<exists>n m. fst (request_call now net c b) = Rejected (JError n m) \<and>
                \<not> normalized_error (JError n m))"
proof -
  have api: "fst (api_call answer net c b) =
      fst (api_on_rejected answer e (b\<lparr>sent := sent b @ [api_request_interceptor c b]\<rparr>))"
    using assms by (simp add: api_call_def)
  have req: "fst (request_call now net c b) =
      fst (request_on_rejected e (b\<lparr>sent := sent b @ [request_request_interceptor now c b]\<rparr>))"
    using assms by (simp add: request_call_def)
  from api_on_rejected_normalized [of answer e] request_on_rejected_is_Error [of e]
  show ?thesis
    unfolding api req by (simp add: not_normalized_JError)
qed

theorem transport_failure_rejections_witness:
  "settle (Unanswered (JStr ''ECONNABORTED'')) = Inl (WithoutResponse (JStr ''ECONNABORTED'')) \<and>
   (\<exists>v. fst (api_call False (Unanswered (JStr ''ECONNABORTED'')) get_info_config
          session_browser) = Rejected v \<and> normalized_error v) \<and>
   (\<exists>n m. fst (request_call 1700000000000 (Unanswered (JStr ''ECONNABORTED'')) get_info_config
          session_browser) = Rejected (JError n m) \<and> \<not> normalized_error (JError n m))"
proof -
  have h: "settle (Unanswered (JStr ''ECONNABORTED'')) =
      Inl (WithoutResponse (JStr ''ECONNABORTED''))"
    by (simp add: settle_def)
  from transport_failure_rejections [OF h, of False get_info_config session_browser
      1700000000000] h
  show ?thesis by simp
qed




text \<open>
  C4, as stated: for every pair of GET requests issued at the same millisecond, the two
  outgoing query signatures differ. The cache-buster of \<^verbatim>\<open>request.js\<close> is the clock
  reading itself (line 32), so two GETs sent one after the other at the same reading carry
  the same \<^verbatim>\<open>_t\<close>.
\<close>

theorem same_millisecond_same_cache_buster:
  "(let (p1, b1) = request_call 1700000000000 (Answered \<lparr>status = 200, data = JNull\<rparr>)
                     get_info_config session_browser;
        (p2, b2) = request_call 1700000000000 (Answered \<lparr>status = 200, data = JNull\<rparr>)
                     get_info_config b1
    in map cache_buster (sent b2)) =
   [Some (JNum 1700000000000), Some (JNum 1700000000000)]"
  by (simp add: request_call_def settle_def request_request_interceptor_def cache_buster_def
      get_info_config_def session_browser_def)

text \<open>
  C4, amended: for every pair of GET requests sent through \<^verbatim>\<open>request.js\<close>, the appended
  cache-busting parameter is the clock reading of the request, so the parameters of the
  two requests differ exactly when the two clock readings differ; \<^verbatim>\<open>api.js\<close> leaves
  the query parameters as they are.
\<close>

theorem cache_buster_differs_iff:
  assumes "http_method c1 = ''get''" and "http_method c2 = ''get''"
  shows "cache_buster (request_request_interceptor t1 c1 b1) = Some (JNum t1) \<and>
         cache_buster (request_request_interceptor t2 c2 b2) = Some (JNum t2) \<and>
         (cache_buster (request_request_interceptor t1 c1 b1) \<noteq>
            cache_buster (request_request_interceptor t2 c2 b2)) = (t1 \<noteq> t2) \<and>
         params (api_request_interceptor c1 b1) = params c1"
proof -
  have cb: "cache_buster (request_request_interceptor t c b) = Some (JNum t)"
    if "http_method c = ''get''" for t c b
    using that
    by (simp add: request_request_interceptor_def cache_buster_def split: option.split)
  show ?thesis
    by (simp add: cb [OF assms(1)] cb [OF assms(2)] api_request_interceptor_def)
qed

theorem cache_buster_differs_iff_witness:
  "http_method get_info_config = ''get'' \<and>
   cache_buster (request_request_interceptor 1700000000000 get_info_config session_browser) =
     Some (JNum 1700000000000) \<and>
   cache_buster (request_request_interceptor 1700000000001 get_info_config session_browser) =
     Some (JNum 1700000000001) \<and>
   cache_buster (request_request_interceptor 1700000000000 get_info_config session_browser) \<noteq>
     cache_buster (request_request_interceptor 1700000000001 get_info_config session_browser)"
proof -
  have h: "http_method get_info_config = ''get''" by (simp add: get_info_config_def)
  from cache_buster_differs_iff [OF h h, of 1700000000000 session_browser 1700000000001
      session_browser] h
  show ?thesis by simp
qed

text \<open>
  C9: for every 2xx response body that carries the success indicator (status-code field
  equal to 200 or success flag truthy) but whose nested data field is falsy, the success
  handler of \<^verbatim>\<open>request.js\<close> resolves with the entire body object rather than the nested
  data payload.
\<close>

theorem request_on_fulfilled_falsy_data:
  assumes "get_prop (data r) ''code'' = JNum 200 \<or> truthy (get_prop (data r) ''success'')"
    and "\<not> truthy (get_prop (data r) ''data'')"
  shows "request_on_fulfilled r = Resolved (data r)"
proof -
  have "\<not> nullish (data r)" using assms(1) by (cases "data r") auto
  then show ?thesis
    using assms by (simp add: request_on_fulfilled_def js_or_def)
qed

theorem request_on_fulfilled_falsy_data_witness:
  "request_on_fulfilled \<lparr>status = 200, data = JObj [(''code'', JNum 200), (''data'', JNull)]\<rparr> =
     Resolved (JObj [(''code'', JNum 200), (''data'', JNull)]) \<and>
   request_on_fulfilled \<lparr>status = 200, data = JObj [(''success'', JBool True), (''data'', JNum 0)]\<rparr> =
     Resolved (JObj [(''success'', JBool True), (''data'', JNum 0)]) \<and>
   request_on_fulfilled \<lparr>status = 201, data = JObj [(''code'', JNum 200), (''data'', JStr [])]\<rparr> =
     Resolved (JObj [(''code'', JNum 200), (''data'', JStr [])]) \<and>
   request_on_fulfilled
     \<lparr>status = 200, data = JObj [(''success'', JStr ''yes''), (''data'', JBool False)]\<rparr> =
     Resolved (JObj [(''success'', JStr ''yes''), (''data'', JBool False)])"
proof -
  have "request_on_fulfilled r = Resolved (data r)"
    if "get_prop (data r) ''code'' = JNum 200 \<or> truthy (get_prop (data r) ''success'')"
      and "\<not> truthy (get_prop (data r) ''data'')" for r
    using that by (rule request_on_fulfilled_falsy_data)
  from this [of "\<lparr>status = 200, data = JObj [(''code'', JNum 200), (''data'', JNull)]\<rparr>"]
    this [of "\<lparr>status = 200, data = JObj [(''success'', JBool True), (''data'', JNum 0)]\<rparr>"]
    this [of "\<lparr>status = 201, data = JObj [(''code'', JNum 200), (''data'', JStr [])]\<rparr>"]
    this [of "\<lparr>status = 200,
               data = JObj [(''success'', JStr ''yes''), (''data'', JBool False)]\<rparr>"]
  show ?thesis by simp
qed

section \<open>Login\<close>

text \<open>The store after a 2xx response whose body carries a truthy token.\<close>

lemma loginUser_2xx_storage:
  assumes "\<not> nullish loginData" and "200 \<le> status r" and "status r < 300"
    and "\<not> nullish (data r)" and "truthy (opt_prop (get_prop (data r) ''data'') ''token'')"
  shows "localStorage (snd (loginUser now answer (Answered r) browserInfo loginData b)) =
           (localStorage b)(''tokenExpiration'' \<mapsto> number_toString (now + 86400000))"
  using assms(1,4,5)
  by (simp add: loginUser_def api_post_def api_call_2xx [OF assms(2,3)] Let_def)

text \<open>
  Counted from the call: a call made at \<open>T\<close> whose response is handled \<open>d\<close>
  milliseconds later stores \<open>T + d + 86400000\<close>.
\<close>

lemma loginUser_at_storage:
  assumes "\<not> nullish loginData" and "200 \<le> status r" and "status r < 300"
    and "get_prop (data r) ''data'' =
           JObj [(''token'', JStr ''t1''), (''userInfo'', JObj [(''id'', JNum 1)])]"
  shows "localStorage (snd (loginUser_at T d answer (Answered r) browserInfo loginData b))
           ''tokenExpiration'' = Some (number_toString (T + int d + 86400000))"
proof -
  have body: "\<not> nullish (data r)" using assms(4) by (cases "data r") simp_all
  have token: "truthy (opt_prop (get_prop (data r) ''data'') ''token'')"
    by (simp add: assms(4) opt_prop_def)
  show ?thesis
    by (simp add: loginUser_at_def loginUser_2xx_storage [OF assms(1-3) body token])
qed

text \<open>
  C6, as stated: for every successful login call made at time \<open>T\<close> whose response
  payload is \<^verbatim>\<open>{token:"t1", userInfo:{id:1}}\<close>, the login operation persists a token
  expiration timestamp equal to \<open>T + 86400000\<close> milliseconds. The clock is read only
  when the response is handled: a call made at 1700000000000 whose response is handled
  50 milliseconds later stores 1700086400050, not 1700086400000.
\<close>

theorem loginUser_counts_from_response:
  "localStorage
     (snd (loginUser_at 1700000000000 50 False
        (Answered \<lparr>status = 200,
           data = JObj [(''code'', JNum 200),
                        (''data'', JObj [(''token'', JStr ''t1''),
                                         (''userInfo'', JObj [(''id'', JNum 1)])])]\<rparr>)
        JNull
        (JObj [(''account'', JStr ''13800000000''), (''password'', JStr ''secret''),
               (''loginType'', JStr ''phone'')])
        \<lparr>localStorage = Map.empty, sent = [], events = []\<rparr>))
     ''tokenExpiration'' = Some ''1700086400050'' \<and>
   number_toString (1700000000000 + 86400000) = ''1700086400000'' \<and>
   ''1700086400050'' \<noteq> ''1700086400000'' \<and>
   parseInt ''1700086400050'' = Some (1700000000000 + 50 + 86400000)"
proof -
  let ?r = "\<lparr>status = 200,
           data = JObj [(''code'', JNum 200),
                        (''data'', JObj [(''token'', JStr ''t1''),
                                         (''userInfo'', JObj [(''id'', JNum 1)])])]\<rparr>"
  let ?l = "JObj [(''account'', JStr ''13800000000''), (''password'', JStr ''secret''),
               (''loginType'', JStr ''phone'')]"
  have h1: "\<not> nullish ?l" and h2: "200 \<le> status ?r" and h3: "status ?r < 300"
    and h4: "get_prop (data ?r) ''data'' =
           JObj [(''token'', JStr ''t1''), (''userInfo'', JObj [(''id'', JNum 1)])]"
    by simp_all
  have n: "number_toString (1700000000000 + int 50 + 86400000) = ''1700086400050''"
    by (simp add: number_toString_eval)
  have m: "number_toString (1700000000000 + 86400000) = ''1700086400000''"
    by (simp add: number_toString_eval)
  have p: "parseInt ''1700086400050'' = Some (1700000000000 + 50 + 86400000)"
    by (simp add: parseInt_eval)
  have s: "localStorage
     (snd (loginUser_at 1700000000000 50 False (Answered ?r) JNull ?l
        \<lparr>localStorage = Map.empty, sent = [], events = []\<rparr>))
     ''tokenExpiration'' = Some ''1700086400050''"
    using loginUser_at_storage [OF h1 h2 h3 h4, of 1700000000000 50 False JNull
      "\<lparr>localStorage = Map.empty, sent = [], events = []\<rparr>"]
    by (simp only: n)
  from s m p show ?thesis by simp
qed

text \<open>
  C6, amended: for every successful login call whose response payload is
  \<^verbatim>\<open>{token:"t1", userInfo:{id:1}}\<close>, the login operation persists a token expiration
  timestamp equal to \<open>T + 86400000\<close> milliseconds, where \<open>T\<close> is the clock reading
  when the response is handled (line 144), that is the time of the call plus the round
  trip: the stored string is the decimal numeral of that number, and \<^verbatim>\<open>parseInt\<close>
  reads that number back from it. The payload is the \<^verbatim>\<open>data\<close> field of the response
  body.
\<close>

theorem loginUser_persists_expiration:
  assumes "\<not> nullish loginData" and "200 \<le> status r" and "status r < 300"
    and "get_prop (data r) ''data'' =
           JObj [(''token'', JStr ''t1''), (''userInfo'', JObj [(''id'', JNum 1)])]"
  shows "localStorage (snd (loginUser T answer (Answered r) browserInfo loginData b))
           ''tokenExpiration'' = Some (number_toString (T + 86400000)) \<and>
         map_option parseInt
           (localStorage (snd (loginUser T answer (Answered r) browserInfo loginData b))
              ''tokenExpiration'') = Some (Some (T + 86400000)) \<and>
         get_prop (fst (loginUser T answer (Answered r) browserInfo loginData b)) ''success'' =
           JBool True"
proof -
  have body: "\<not> nullish (data r)" using assms(4) by (cases "data r") simp_all
  have token: "truthy (opt_prop (get_prop (data r) ''data'') ''token'')"
    by (simp add: assms(4) opt_prop_def)
  have post: "api_post answer (Answered r) u payload b =
      (Resolved (data r),
       b\<lparr>sent := sent b @
            [api_request_interceptor
               \<lparr>http_method = ''post'', url = u, params = None, body = payload,
                headers = [''Content-Type'' \<mapsto> ''application/json'']\<rparr> b]\<rparr>)"
    for u payload
    by (simp add: api_post_def api_call_2xx [OF assms(2,3)])
  have stored: "localStorage (snd (loginUser T answer (Answered r) browserInfo loginData b))
      ''tokenExpiration'' = Some (number_toString (T + 86400000))"
    using assms(1) body token by (simp add: loginUser_def post Let_def)
  have ok: "get_prop (fst (loginUser T answer (Answered r) browserInfo loginData b))
      ''success'' = JBool True"
    using assms(1) body by (simp add: loginUser_def post Let_def)
  from stored ok show ?thesis by (simp add: parseInt_number_toString)
qed

theorem loginUser_persists_expiration_witness:
  "localStorage
     (snd (loginUser 1700000000000 False
        (Answered \<lparr>status = 200,
           data = JObj [(''code'', JNum 200),
                        (''data'', JObj [(''token'', JStr ''t1''),
                                         (''userInfo'', JObj [(''id'', JNum 1)])])]\<rparr>)
        JNull
        (JObj [(''account'', JStr ''13800000000''), (''password'', JStr ''secret''),
               (''loginType'', JStr ''phone'')])
        \<lparr>localStorage = Map.empty, sent = [], events = []\<rparr>))
     ''tokenExpiration'' = Some ''1700086400000''"
proof -
  let ?r = "\<lparr>status = 200,
           data = JObj [(''code'', JNum 200),
                        (''data'', JObj [(''token'', JStr ''t1''),
                                         (''userInfo'', JObj [(''id'', JNum 1)])])]\<rparr>"
  let ?l = "JObj [(''account'', JStr ''13800000000''), (''password'', JStr ''secret''),
               (''loginType'', JStr ''phone'')]"
  have h1: "\<not> nullish ?l" and h2: "200 \<le> status ?r" and h3: "status ?r < 300"
    and h4: "get_prop (data ?r) ''data'' =
           JObj [(''token'', JStr ''t1''), (''userInfo'', JObj [(''id'', JNum 1)])]"
    by simp_all
  have n: "number_toString (1700000000000 + 86400000) = ''1700086400000''"
    by (simp add: number_toString_eval)
  from loginUser_persists_expiration [OF h1 h2 h3 h4, of 1700000000000 False JNull
      "\<lparr>localStorage = Map.empty, sent = [], events = []\<rparr>"]
  show ?thesis by (simp only: n)
qed

end
